theory Spec2Isabelle
  imports Complex_Main
begin

section \<open>Actor-critic network wrappers (ac\_nets.py)\<close>

text \<open>
  The module wraps a three-layer feed-forward network (\<open>NeuralNet\<close>) in two trainers,
  \<open>CriticNetwork\<close> and \<open>ActorNetwork\<close>. Its own code is a composition of PyTorch tensor
  operations, so the embedding has two layers:
  \<^item> the tensor operations the module calls (\<open>nn.Linear\<close>, \<open>F.relu\<close>, \<open>F.softmax\<close>,
    \<open>F.one_hot\<close>, \<open>squeeze\<close>, \<open>unsqueeze\<close>, broadcasting arithmetic, \<open>sum\<close>, \<open>mean\<close>,
    \<open>nn.MSELoss\<close>, \<open>Categorical\<close>), written out after their PyTorch documentation and
    reference implementation, shapes and shape errors included;
  \<^item> the functions of the module, translated line by line over those operations.

  Tensor entries are real numbers: rounding, overflow and the not-a-number values of
  IEEE arithmetic are outside the model. The two non-finite values the module itself
  handles are kept: the initial diagnostic \<open>np.inf\<close> and the \<open>nan\<close> of a mean taken over
  nothing. Automatic differentiation and the Adam optimizer are parameters of the model
  (\<open>torch_lib\<close>): no claim depends on what a gradient step computes, only on whether and
  when it is applied. Tensors live on the host (the \<open>cuda\<close> flag is stored, as in the
  source, and moves data only).
\<close>

subsection \<open>Tensors\<close>

text \<open>
  A tensor is its shape and its entries, read through a multi-index of the shape's
  length. Only the entries at indices within the shape are meaningful.
\<close>

record 'a tensor =
  shape :: "nat list"
  elem :: "nat list \<Rightarrow> 'a"

text \<open>All multi-indices of a shape, in row-major order.\<close>

fun indices :: "nat list \<Rightarrow> nat list list" where
  "indices [] = [[]]"
| "indices (d # ds) = concat (map (\<lambda>i. map ((#) i) (indices ds)) [0..<d])"

definition numel :: "nat list \<Rightarrow> nat" where
  "numel s = prod_list s"

definition tmap :: "('a \<Rightarrow> 'b) \<Rightarrow> 'a tensor \<Rightarrow> 'b tensor" where
  "tmap f t = \<lparr>shape = shape t, elem = (\<lambda>idx. f (elem t idx))\<rparr>"

text \<open>The errors an update can raise, by kind.\<close>

datatype error = ShapeMismatch | IndexOutOfRange | InvalidDistribution | InvalidArgument

text \<open>
  A host-side scalar as the module stores it in its loss history: a finite number,
  \<open>np.inf\<close>, or \<open>nan\<close>.
\<close>

datatype npfloat = Finite real | PosInf | NaN

subsection \<open>The PyTorch operations the module calls\<close>

text \<open>
  \<open>x.squeeze(-1)\<close> removes the last dimension when its size is 1 and returns the tensor
  as it is otherwise (also for a tensor without dimensions).
\<close>

definition squeeze_last :: "'a tensor \<Rightarrow> 'a tensor" where
  "squeeze_last t =
     (if shape t \<noteq> [] \<and> last (shape t) = 1
      then \<lparr>shape = butlast (shape t), elem = (\<lambda>idx. elem t (idx @ [0]))\<rparr>
      else t)"

text \<open>\<open>x.unsqueeze(-1)\<close> appends a dimension of size 1.\<close>

definition unsqueeze_last :: "'a tensor \<Rightarrow> 'a tensor" where
  "unsqueeze_last t = \<lparr>shape = shape t @ [1], elem = (\<lambda>idx. elem t (butlast idx))\<rparr>"

text \<open>\<open>x.long()\<close> converts to 64-bit integers, truncating towards zero.\<close>

definition long :: "real \<Rightarrow> int" where
  "long v = (if 0 \<le> v then \<lfloor>v\<rfloor> else \<lceil>v\<rceil>)"

text \<open>
  Broadcasting: shapes are aligned at their last dimension; two sizes are compatible
  when they are equal or one of them is 1; a missing leading dimension counts as 1.
  \<open>broadcast_rev\<close> works on the reversed shapes.
\<close>

fun broadcast_rev :: "nat list \<Rightarrow> nat list \<Rightarrow> nat list option" where
  "broadcast_rev [] ys = Some ys"
| "broadcast_rev (x # xs) [] = Some (x # xs)"
| "broadcast_rev (x # xs) (y # ys) =
     (if x = y \<or> y = 1 then map_option ((#) x) (broadcast_rev xs ys)
      else if x = 1 then map_option ((#) y) (broadcast_rev xs ys)
      else None)"

definition broadcast_shapes :: "nat list \<Rightarrow> nat list \<Rightarrow> nat list option" where
  "broadcast_shapes s1 s2 = map_option rev (broadcast_rev (rev s1) (rev s2))"

text \<open>
  The index at which a tensor of shape \<open>s\<close> is read for the index \<open>idx\<close> of the broadcast
  result: the trailing components of \<open>idx\<close>, with 0 along every dimension of size 1.
\<close>

definition expand_index :: "nat list \<Rightarrow> nat list \<Rightarrow> nat list" where
  "expand_index s idx =
     map2 (\<lambda>d i. if d = 1 then 0 else i) s (drop (length idx - length s) idx)"

text \<open>An elementwise binary operation (\<open>a * b\<close>, \<open>a - b\<close>) with broadcasting.\<close>

definition broadcast2 ::
  "(real \<Rightarrow> real \<Rightarrow> real) \<Rightarrow> real tensor \<Rightarrow> real tensor \<Rightarrow> error + real tensor" where
  "broadcast2 f a b =
     (case broadcast_shapes (shape a) (shape b) of
        None \<Rightarrow> Inl ShapeMismatch
      | Some s \<Rightarrow>
          Inr \<lparr>shape = s,
               elem = (\<lambda>idx. f (elem a (expand_index (shape a) idx))
                               (elem b (expand_index (shape b) idx)))\<rparr>)"

text \<open>\<open>x.sum(-1, keepdims=True)\<close>: the sum along the last dimension, kept with size 1.\<close>

definition sum_last_keepdims :: "real tensor \<Rightarrow> real tensor" where
  "sum_last_keepdims t =
     (if shape t = [] then t
      else \<lparr>shape = butlast (shape t) @ [1],
            elem = (\<lambda>idx. \<Sum>k<last (shape t). elem t (butlast idx @ [k]))\<rparr>)"

text \<open>\<open>x.mean()\<close>: the mean of all entries; \<open>nan\<close> for a tensor without entries.\<close>

definition torch_mean :: "real tensor \<Rightarrow> npfloat" where
  "torch_mean t =
     (if numel (shape t) = 0 then NaN
      else Finite (sum_list (map (elem t) (indices (shape t))) / real (numel (shape t))))"

text \<open>
  \<open>nn.MSELoss()\<close> with its default reduction: the two arguments are broadcast against
  each other (PyTorch warns when their sizes differ, and goes on), and the squared
  differences are averaged.
\<close>

definition MSELoss :: "real tensor \<Rightarrow> real tensor \<Rightarrow> error + npfloat" where
  "MSELoss inp tgt =
     (case broadcast2 (\<lambda>x y. (x - y)\<^sup>2) inp tgt of
        Inl e \<Rightarrow> Inl e
      | Inr d \<Rightarrow> Inr (torch_mean d))"

text \<open>
  \<open>F.one_hot(t, num_classes=n)\<close> on the host: a class value below 0 or not below \<open>n\<close>
  is refused; so is an empty tensor when \<open>n\<close> is not positive. The result has one more
  dimension, of size \<open>n\<close>.
\<close>

definition one_hot :: "int tensor \<Rightarrow> nat \<Rightarrow> error + int tensor" where
  "one_hot t num_classes =
     (if numel (shape t) = 0 \<and> num_classes = 0 then Inl InvalidArgument
      else if list_ex (\<lambda>idx. elem t idx < 0 \<or> int num_classes \<le> elem t idx) (indices (shape t))
      then Inl IndexOutOfRange
      else Inr \<lparr>shape = shape t @ [num_classes],
                elem = (\<lambda>idx. if int (last idx) = elem t (butlast idx) then 1 else 0)\<rparr>)"

text \<open>\<open>nn.Linear(in_features, out_features)\<close>: \<open>y = x W\<^sup>T + b\<close> along the last dimension.\<close>

record Linear =
  in_features :: nat
  out_features :: nat
  weight :: "nat \<Rightarrow> nat \<Rightarrow> real"
  bias :: "nat \<Rightarrow> real"

definition Linear_forward :: "Linear \<Rightarrow> real tensor \<Rightarrow> error + real tensor" where
  "Linear_forward l x =
     (if shape x = [] \<or> last (shape x) \<noteq> in_features l then Inl ShapeMismatch
      else Inr \<lparr>shape = butlast (shape x) @ [out_features l],
                elem = (\<lambda>idx. (\<Sum>k<in_features l. elem x (butlast idx @ [k]) * weight l (last idx) k)
                               + bias l (last idx))\<rparr>)"

definition relu :: "real tensor \<Rightarrow> real tensor" where
  "relu t = tmap (\<lambda>v. max 0 v) t"

text \<open>
  \<open>F.softmax(x, -1)\<close>: the normalized exponential along the last dimension (1 for a
  tensor without dimensions).
\<close>

definition softmax :: "real tensor \<Rightarrow> real tensor" where
  "softmax x =
     (if shape x = [] then \<lparr>shape = [], elem = (\<lambda>idx. 1)\<rparr>
      else \<lparr>shape = shape x,
            elem = (\<lambda>idx. exp (elem x idx) / (\<Sum>k<last (shape x). exp (elem x (butlast idx @ [k]))))\<rparr>)"

text \<open>
  \<open>Categorical(probs=p)\<close> divides each row of \<open>p\<close> by its sum and, argument validation
  being on by default, refuses rows that are then not on the probability simplex (a row
  whose sum is 0, an empty row and a row with a negative entry are such rows). The
  distribution is represented by its normalized probabilities.
\<close>

definition row_ok :: "real tensor \<Rightarrow> nat list \<Rightarrow> bool" where
  "row_ok p idx =
     (let n = last (shape p); s = (\<Sum>k<n. elem p (idx @ [k]))
      in s \<noteq> 0 \<and> list_all (\<lambda>k. 0 \<le> elem p (idx @ [k]) / s) [0..<n])"

definition Categorical :: "real tensor \<Rightarrow> error + real tensor" where
  "Categorical p =
     (if shape p = [] then Inl InvalidArgument
      else if list_all (row_ok p) (indices (butlast (shape p)))
      then Inr \<lparr>shape = shape p,
                elem = (\<lambda>idx. elem p idx / (\<Sum>k<last (shape p). elem p (butlast idx @ [k])))\<rparr>
      else Inl InvalidDistribution)"

text \<open>
  The distribution's logits are the logarithms of its probabilities, clamped to
  \<open>[eps, 1 - eps]\<close> first (\<open>eps\<close> the machine epsilon of 32-bit floats).
\<close>

definition eps :: real where
  "eps = 1 / 2 ^ 23"

definition clamp_probs :: "real \<Rightarrow> real" where
  "clamp_probs v = min (max v eps) (1 - eps)"

definition logit :: "real tensor \<Rightarrow> nat list \<Rightarrow> real" where
  "logit pd idx = ln (clamp_probs (elem pd idx))"

text \<open>
  \<open>dist.log_prob(value)\<close>: the value must broadcast against the batch shape and lie in
  the support \<open>{0, ..., n - 1}\<close> (whole numbers only); the result is the logit at the
  value, per example.
\<close>

definition in_support :: "nat \<Rightarrow> real \<Rightarrow> bool" where
  "in_support n v = (of_int \<lfloor>v\<rfloor> = v \<and> 0 \<le> v \<and> v \<le> real n - 1)"

definition log_prob :: "real tensor \<Rightarrow> real tensor \<Rightarrow> error + real tensor" where
  "log_prob pd val =
     (case broadcast_shapes (shape val) (butlast (shape pd)) of
        None \<Rightarrow> Inl ShapeMismatch
      | Some s \<Rightarrow>
          if list_ex (\<lambda>idx. \<not> in_support (last (shape pd)) (elem val idx)) (indices (shape val))
          then Inl IndexOutOfRange
          else Inr \<lparr>shape = s,
                    elem = (\<lambda>idx. logit pd
                              (expand_index (butlast (shape pd)) idx
                                 @ [nat (long (elem val (expand_index (shape val) idx)))]))\<rparr>)"

text \<open>\<open>dist.entropy()\<close>: minus the sum of probability times logit, per example.\<close>

definition entropy :: "real tensor \<Rightarrow> real tensor" where
  "entropy pd =
     \<lparr>shape = butlast (shape pd),
      elem = (\<lambda>idx. - (\<Sum>k<last (shape pd). logit pd (idx @ [k]) * elem pd (idx @ [k])))\<rparr>"

text \<open>
  \<open>dist.sample()\<close> draws one class per example; the result has the batch shape. The
  random draw is a parameter: \<open>draw idx row n\<close> is the class drawn for the example at
  \<open>idx\<close>, whose probabilities are \<open>row 0, ..., row (n - 1)\<close>.
\<close>

definition sample :: "(nat list \<Rightarrow> (nat \<Rightarrow> real) \<Rightarrow> nat \<Rightarrow> int) \<Rightarrow> real tensor \<Rightarrow> int tensor" where
  "sample draw pd =
     \<lparr>shape = butlast (shape pd),
      elem = (\<lambda>idx. draw idx (\<lambda>k. elem pd (idx @ [k])) (last (shape pd)))\<rparr>"

text \<open>
  \<open>np.mean\<close> of the loss history: \<open>nan\<close> for an empty history or one that holds a
  \<open>nan\<close>, else \<open>inf\<close> when it holds one, else the arithmetic mean.
\<close>

fun finite_value :: "npfloat \<Rightarrow> real" where
  "finite_value (Finite r) = r"
| "finite_value PosInf = 0"
| "finite_value NaN = 0"

definition np_mean :: "npfloat list \<Rightarrow> npfloat" where
  "np_mean xs =
     (if xs = [] \<or> NaN \<in> set xs then NaN
      else if PosInf \<in> set xs then PosInf
      else Finite (sum_list (map finite_value xs) / real (length xs)))"

text \<open>
  Automatic differentiation and the optimizer, as parameters: \<open>Adam lr\<close> is the
  optimizer's state as constructed; \<open>backward L p\<close> is the gradient of the loss \<open>L\<close>, a
  function of the network's parameters, at the parameters \<open>p\<close>; \<open>step\<close> is one
  optimizer step on the parameters, from the gradients stored by \<open>backward\<close>.
\<close>

record parameters =
  l1_weight :: "nat \<Rightarrow> nat \<Rightarrow> real"
  l1_bias :: "nat \<Rightarrow> real"
  l2_weight :: "nat \<Rightarrow> nat \<Rightarrow> real"
  l2_bias :: "nat \<Rightarrow> real"
  l3_weight :: "nat \<Rightarrow> nat \<Rightarrow> real"
  l3_bias :: "nat \<Rightarrow> real"

record ('g, 'o) torch_lib =
  Adam :: "real \<Rightarrow> 'o"
  backward :: "(parameters \<Rightarrow> npfloat) \<Rightarrow> parameters \<Rightarrow> 'g"
  step :: "'o \<Rightarrow> parameters \<Rightarrow> 'g option \<Rightarrow> 'o \<times> parameters"

subsection \<open>NeuralNet\<close>

definition hidden_size :: nat where
  "hidden_size = 64"

record NeuralNet =
  l1 :: Linear
  l2 :: Linear
  l3 :: Linear
  b_actor :: bool

text \<open>
  \<open>NeuralNet.__init__\<close>; the initial weights, random in the source, are the argument
  \<open>p\<close>.
\<close>

definition NeuralNet_init :: "parameters \<Rightarrow> nat \<Rightarrow> nat \<Rightarrow> bool \<Rightarrow> NeuralNet" where
  "NeuralNet_init p state_dim action_dim actor =
     \<lparr>l1 = \<lparr>in_features = state_dim, out_features = hidden_size,
             weight = l1_weight p, bias = l1_bias p\<rparr>,
      l2 = \<lparr>in_features = hidden_size, out_features = hidden_size,
             weight = l2_weight p, bias = l2_bias p\<rparr>,
      l3 = \<lparr>in_features = hidden_size, out_features = action_dim,
             weight = l3_weight p, bias = l3_bias p\<rparr>,
      b_actor = actor\<rparr>"

definition forward :: "NeuralNet \<Rightarrow> real tensor \<Rightarrow> error + real tensor" where
  "forward n s =
     (case Linear_forward (l1 n) s of
        Inl e \<Rightarrow> Inl e
      | Inr h1 \<Rightarrow>
          (case Linear_forward (l2 n) (relu h1) of
             Inl e \<Rightarrow> Inl e
           | Inr h2 \<Rightarrow>
               (if b_actor n
                then (case Linear_forward (l3 n) (relu h2) of
                        Inl e \<Rightarrow> Inl e
                      | Inr raw \<Rightarrow> Inr (softmax raw))
                else Linear_forward (l3 n) (relu h2))))"

text \<open>The parameters of a network (\<open>net.parameters()\<close>), read and replaced.\<close>

definition get_parameters :: "NeuralNet \<Rightarrow> parameters" where
  "get_parameters n =
     \<lparr>l1_weight = weight (l1 n), l1_bias = bias (l1 n),
      l2_weight = weight (l2 n), l2_bias = bias (l2 n),
      l3_weight = weight (l3 n), l3_bias = bias (l3 n)\<rparr>"

definition set_parameters :: "NeuralNet \<Rightarrow> parameters \<Rightarrow> NeuralNet" where
  "set_parameters n p =
     n\<lparr>l1 := (l1 n)\<lparr>weight := l1_weight p, bias := l1_bias p\<rparr>,
       l2 := (l2 n)\<lparr>weight := l2_weight p, bias := l2_bias p\<rparr>,
       l3 := (l3 n)\<lparr>weight := l3_weight p, bias := l3_bias p\<rparr>\<rparr>"

text \<open>
  The layers of a constructed network fit together, and optimizer steps keep it so.
\<close>

definition net_wf :: "NeuralNet \<Rightarrow> bool" where
  "net_wf n =
     (out_features (l1 n) = hidden_size \<and> in_features (l2 n) = hidden_size \<and>
      out_features (l2 n) = hidden_size \<and> in_features (l3 n) = hidden_size)"

subsection \<open>The trainers' state\<close>

text \<open>
  The fields both trainers have. \<open>grads\<close> stands for the \<open>.grad\<close> buffers of the
  network's parameters: \<open>optimizer.zero_grad()\<close> clears them, \<open>loss.backward()\<close> fills them.
\<close>

record ('g, 'o) Trainer =
  num_outs :: nat
  net :: NeuralNet
  grads :: "'g option"
  optimizer :: 'o
  cuda :: bool
  losses :: "npfloat list"
  name :: string

record ('g, 'o) CriticNetwork = "('g, 'o) Trainer" +
  critic_loss :: npfloat

record ('g, 'o) ActorNetwork = "('g, 'o) Trainer" +
  beta :: real
  actor_loss :: npfloat

subsection \<open>CriticNetwork\<close>

definition CriticNetwork_init ::
  "('g, 'o) torch_lib \<Rightarrow> parameters \<Rightarrow> string \<Rightarrow> nat \<Rightarrow> nat \<Rightarrow> real \<Rightarrow> bool \<Rightarrow> ('g, 'o) CriticNetwork" where
  "CriticNetwork_init lib p nm n_features critic_actions lr use_cuda =
     \<lparr>num_outs = critic_actions,
      net = NeuralNet_init p n_features critic_actions False,
      grads = None,
      optimizer = Adam lib lr,
      cuda = use_cuda,
      losses = [],
      name = nm,
      critic_loss = PosInf\<rparr>"


text \<open>
  Lines 71 to 77 of \<open>CriticNetwork.batch_update\<close>: the loss of one update, as a function
  of the network.
\<close>

definition critic_q_sel :: "nat \<Rightarrow> real tensor \<Rightarrow> bool \<Rightarrow> error + real tensor" where
  "critic_q_sel n act action_distribution =
     (if \<not> action_distribution
      then (case one_hot (tmap long (squeeze_last act)) n of
              Inl e \<Rightarrow> Inl e
            | Inr h \<Rightarrow> Inr (tmap real_of_int h))
      else Inr act)"

definition critic_dot_prd ::
  "nat \<Rightarrow> NeuralNet \<Rightarrow> real tensor \<Rightarrow> real tensor \<Rightarrow> bool \<Rightarrow> error + real tensor" where
  "critic_dot_prd n nn obs act action_distribution =
     (case forward nn obs of
        Inl e \<Rightarrow> Inl e
      | Inr Q \<Rightarrow>
          (case critic_q_sel n act action_distribution of
             Inl e \<Rightarrow> Inl e
           | Inr q_sel \<Rightarrow>
               (case broadcast2 (*) Q q_sel of
                  Inl e \<Rightarrow> Inl e
                | Inr prd \<Rightarrow> Inr (sum_last_keepdims prd))))"

definition critic_loss_value ::
  "nat \<Rightarrow> NeuralNet \<Rightarrow> real tensor \<Rightarrow> real tensor \<Rightarrow> real tensor \<Rightarrow> bool \<Rightarrow> error + npfloat" where
  "critic_loss_value n nn obs act target action_distribution =
     (case critic_dot_prd n nn obs act action_distribution of
        Inl e \<Rightarrow> Inl e
      | Inr dot_prd \<Rightarrow> MSELoss target dot_prd)"

text \<open>
  The loss as the function of the parameters that \<open>loss.backward()\<close> differentiates.
\<close>

definition loss_of_parameters :: "(NeuralNet \<Rightarrow> error + npfloat) \<Rightarrow> NeuralNet \<Rightarrow> parameters \<Rightarrow> npfloat" where
  "loss_of_parameters L nn p = (case L (set_parameters nn p) of Inl e \<Rightarrow> NaN | Inr v \<Rightarrow> v)"

text \<open>
  The bounded history: append, drop the oldest entry when there are more than 20.
\<close>

definition record_loss :: "npfloat list \<Rightarrow> npfloat \<Rightarrow> npfloat list" where
  "record_loss ls l = (let ls' = ls @ [l] in if length ls' > 20 then tl ls' else ls')"

text \<open>
  \<open>CriticNetwork.batch_update\<close>. The result is the trainer as the call leaves it and
  the error the call raised, if any. An error of the loss computation leaves the method
  after \<open>zero_grad\<close>, before \<open>backward\<close>.
\<close>

definition CriticNetwork_batch_update ::
  "('g, 'o) torch_lib \<Rightarrow> ('g, 'o) CriticNetwork \<Rightarrow> real tensor \<Rightarrow> real tensor \<Rightarrow> real tensor \<Rightarrow> bool
     \<Rightarrow> ('g, 'o) CriticNetwork \<times> error option" where
  "CriticNetwork_batch_update lib c obs act target action_distribution =
     (let c1 = c\<lparr>grads := None\<rparr> in
      case critic_loss_value (num_outs c1) (net c1) obs act target action_distribution of
        Inl e \<Rightarrow> (c1, Some e)
      | Inr loss \<Rightarrow>
          (let L = loss_of_parameters
                     (\<lambda>w. critic_loss_value (num_outs c1) w obs act target action_distribution) (net c1);
               c2 = c1\<lparr>grads := Some (backward lib L (get_parameters (net c1)))\<rparr>;
               r = step lib (optimizer c2) (get_parameters (net c2)) (grads c2);
               c3 = c2\<lparr>optimizer := fst r, net := set_parameters (net c2) (snd r)\<rparr>;
               get_loss = loss;
               c4 = c3\<lparr>losses := record_loss (losses c3) get_loss\<rparr>
           in (c4\<lparr>critic_loss := np_mean (losses c4)\<rparr>, None)))"

subsection \<open>ActorNetwork\<close>

definition ActorNetwork_init ::
  "('g, 'o) torch_lib \<Rightarrow> parameters \<Rightarrow> string \<Rightarrow> nat \<Rightarrow> nat \<Rightarrow> real \<Rightarrow> real \<Rightarrow> bool \<Rightarrow> ('g, 'o) ActorNetwork" where
  "ActorNetwork_init lib p nm n_features actor_actions lr b use_cuda =
     \<lparr>num_outs = actor_actions,
      net = NeuralNet_init p n_features actor_actions True,
      grads = None,
      optimizer = Adam lib lr,
      cuda = use_cuda,
      losses = [],
      name = nm,
      beta = b,
      actor_loss = PosInf\<rparr>"

definition sample_action ::
  "(nat list \<Rightarrow> (nat \<Rightarrow> real) \<Rightarrow> nat \<Rightarrow> int) \<Rightarrow> ('g, 'o) ActorNetwork \<Rightarrow> real tensor \<Rightarrow> bool
     \<Rightarrow> ('g, 'o) ActorNetwork \<times> (error + int tensor)" where
  "sample_action draw a obs grad =
     (case (if \<not> grad then forward (net a) obs else forward (net a) obs) of
        Inl e \<Rightarrow> (a, Inl e)
      | Inr probs \<Rightarrow>
          (case Categorical probs of
             Inl e \<Rightarrow> (a, Inl e)
           | Inr pd \<Rightarrow> (a, Inr (sample draw pd))))"

definition action_distribution ::
  "('g, 'o) ActorNetwork \<Rightarrow> real tensor \<Rightarrow> bool \<Rightarrow> ('g, 'o) ActorNetwork \<times> (error + real tensor)" where
  "action_distribution a obs grad =
     (if \<not> grad then (a, forward (net a) obs) else (a, forward (net a) obs))"

text \<open>
  Lines 140 to 148 of \<open>ActorNetwork.batch_update\<close>: the policy-gradient term, and the
  loss of one update as a function of the network.
\<close>

definition actor_pg_loss ::
  "real tensor \<Rightarrow> real tensor \<Rightarrow> real tensor \<Rightarrow> bool \<Rightarrow> error + real tensor" where
  "actor_pg_loss pd act adv act_is_dist =
     (if act_is_dist then Inr (tmap uminus adv)
      else (case log_prob pd (squeeze_last act) of
              Inl e \<Rightarrow> Inl e
            | Inr lp \<Rightarrow> broadcast2 (*) adv (unsqueeze_last (tmap uminus lp))))"

definition actor_loss_value ::
  "real \<Rightarrow> NeuralNet \<Rightarrow> real tensor \<Rightarrow> real tensor \<Rightarrow> real tensor \<Rightarrow> bool \<Rightarrow> error + npfloat" where
  "actor_loss_value b nn obs act adv act_is_dist =
     (case forward nn obs of
        Inl e \<Rightarrow> Inl e
      | Inr probs \<Rightarrow>
          (case Categorical probs of
             Inl e \<Rightarrow> Inl e
           | Inr pd \<Rightarrow>
               (case actor_pg_loss pd act adv act_is_dist of
                  Inl e \<Rightarrow> Inl e
                | Inr pg_loss \<Rightarrow>
                    (case broadcast2 (-) pg_loss
                            (tmap (\<lambda>v. b * v) (unsqueeze_last (entropy pd))) of
                       Inl e \<Rightarrow> Inl e
                     | Inr d \<Rightarrow> Inr (torch_mean d)))))"

definition ActorNetwork_batch_update ::
  "('g, 'o) torch_lib \<Rightarrow> ('g, 'o) ActorNetwork \<Rightarrow> real tensor \<Rightarrow> real tensor \<Rightarrow> real tensor \<Rightarrow> bool
     \<Rightarrow> ('g, 'o) ActorNetwork \<times> error option" where
  "ActorNetwork_batch_update lib a obs act adv act_is_dist =
     (let a1 = a\<lparr>grads := None\<rparr> in
      case actor_loss_value (beta a1) (net a1) obs act adv act_is_dist of
        Inl e \<Rightarrow> (a1, Some e)
      | Inr loss \<Rightarrow>
          (let L = loss_of_parameters
                     (\<lambda>w. actor_loss_value (beta a1) w obs act adv act_is_dist) (net a1);
               a2 = a1\<lparr>grads := Some (backward lib L (get_parameters (net a1)))\<rparr>;
               r = step lib (optimizer a2) (get_parameters (net a2)) (grads a2);
               a3 = a2\<lparr>optimizer := fst r, net := set_parameters (net a2) (snd r)\<rparr>;
               get_loss = loss;
               a4 = a3\<lparr>losses := record_loss (losses a3) get_loss\<rparr>
           in (a4\<lparr>actor_loss := np_mean (losses a4)\<rparr>, None)))"

subsection \<open>A caller's sequence of update calls\<close>

text \<open>
  The claims on the loss history speak of sequences of update calls. A caller issues
  the calls one after the other on the same trainer and goes on after a call that
  raised. \<open>critic_run\<close> is the trainer after the calls, \<open>critic_recorded\<close> the losses of
  the calls that succeeded, in call order.
\<close>

datatype update_call =
  UpdateCall (call_obs: "real tensor") (call_act: "real tensor") (call_target: "real tensor")
    (call_flag: bool)








section \<open>The update methods and the loss history\<close>

lemma CriticNetwork_batch_update_fail:
  assumes "critic_loss_value (num_outs c) (net c) obs act target flag = Inl e"
  shows "CriticNetwork_batch_update lib c obs act target flag = (c\<lparr>grads := None\<rparr>, Some e)"
  using assms by (simp add: CriticNetwork_batch_update_def)

lemma CriticNetwork_batch_update_ok:
  assumes "critic_loss_value (num_outs c) (net c) obs act target flag = Inr l"
  shows "\<exists>g opt nn. CriticNetwork_batch_update lib c obs act target flag =
           (c\<lparr>grads := g, optimizer := opt, net := nn, losses := record_loss (losses c) l,
              critic_loss := np_mean (record_loss (losses c) l)\<rparr>, None)"
  using assms by (simp add: CriticNetwork_batch_update_def Let_def) (intro exI, rule refl)

lemma ActorNetwork_batch_update_fail:
  assumes "actor_loss_value (beta a) (net a) obs act adv flag = Inl e"
  shows "ActorNetwork_batch_update lib a obs act adv flag = (a\<lparr>grads := None\<rparr>, Some e)"
  using assms by (simp add: ActorNetwork_batch_update_def)

lemma ActorNetwork_batch_update_ok:
  assumes "actor_loss_value (beta a) (net a) obs act adv flag = Inr l"
  shows "\<exists>g opt nn. ActorNetwork_batch_update lib a obs act adv flag =
           (a\<lparr>grads := g, optimizer := opt, net := nn, losses := record_loss (losses a) l,
              actor_loss := np_mean (record_loss (losses a) l)\<rparr>, None)"
  using assms by (simp add: ActorNetwork_batch_update_def Let_def) (intro exI, rule refl)

lemma record_loss_nonempty: "record_loss ls l \<noteq> []"
  by (cases ls) (auto simp: record_loss_def Let_def)



lemma critic_step_cases:
  obtains (fail) e where
      "critic_loss_value (num_outs c) (net c) obs act target flag = Inl e"
      "CriticNetwork_batch_update lib c obs act target flag = (c\<lparr>grads := None\<rparr>, Some e)"
  | (ok) l g opt nn where
      "critic_loss_value (num_outs c) (net c) obs act target flag = Inr l"
      "CriticNetwork_batch_update lib c obs act target flag =
         (c\<lparr>grads := g, optimizer := opt, net := nn, losses := record_loss (losses c) l,
            critic_loss := np_mean (record_loss (losses c) l)\<rparr>, None)"
proof (cases "critic_loss_value (num_outs c) (net c) obs act target flag")
  case (Inl e)
  then show ?thesis using CriticNetwork_batch_update_fail [OF Inl] fail by blast
next
  case (Inr l)
  then show ?thesis using CriticNetwork_batch_update_ok [OF Inr] ok by blast
qed

lemma actor_step_cases:
  obtains (fail) e where
      "actor_loss_value (beta a) (net a) obs act adv flag = Inl e"
      "ActorNetwork_batch_update lib a obs act adv flag = (a\<lparr>grads := None\<rparr>, Some e)"
  | (ok) l g opt nn where
      "actor_loss_value (beta a) (net a) obs act adv flag = Inr l"
      "ActorNetwork_batch_update lib a obs act adv flag =
         (a\<lparr>grads := g, optimizer := opt, net := nn, losses := record_loss (losses a) l,
            actor_loss := np_mean (record_loss (losses a) l)\<rparr>, None)"
proof (cases "actor_loss_value (beta a) (net a) obs act adv flag")
  case (Inl e)
  then show ?thesis using ActorNetwork_batch_update_fail [OF Inl] fail by blast
next
  case (Inr l)
  then show ?thesis using ActorNetwork_batch_update_ok [OF Inr] ok by blast
qed










text \<open>
  Claim C10. A freshly constructed trainer has an empty loss history and the diagnostic
  \<open>np.inf\<close>. An update call that succeeds takes the mean of a history that is not empty
  (the loss was appended first); one that raises does not take the mean at all: history
  and diagnostic stay as they were.
\<close>

theorem fresh_trainer_history:
  "losses (CriticNetwork_init lib p nm n_features n_actions lr use_cuda) = [] \<and>
   critic_loss (CriticNetwork_init lib p nm n_features n_actions lr use_cuda) = PosInf \<and>
   losses (ActorNetwork_init lib p nm n_features n_actions lr b use_cuda) = [] \<and>
   actor_loss (ActorNetwork_init lib p nm n_features n_actions lr b use_cuda) = PosInf \<and>
   (case CriticNetwork_batch_update lib c obs act target flag of
      (c', None) \<Rightarrow> losses c' \<noteq> [] \<and> critic_loss c' = np_mean (losses c')
    | (c', Some e) \<Rightarrow> losses c' = losses c \<and> critic_loss c' = critic_loss c) \<and>
   (case ActorNetwork_batch_update lib a obs' act' adv flag' of
      (a', None) \<Rightarrow> losses a' \<noteq> [] \<and> actor_loss a' = np_mean (losses a')
    | (a', Some e) \<Rightarrow> losses a' = losses a \<and> actor_loss a' = actor_loss a)"
proof -
  have 1: "case CriticNetwork_batch_update lib c obs act target flag of
      (c', None) \<Rightarrow> losses c' \<noteq> [] \<and> critic_loss c' = np_mean (losses c')
    | (c', Some e) \<Rightarrow> losses c' = losses c \<and> critic_loss c' = critic_loss c"
    by (cases rule: critic_step_cases [of c obs act target flag lib])
      (simp_all add: record_loss_nonempty)
  have 2: "case ActorNetwork_batch_update lib a obs' act' adv flag' of
      (a', None) \<Rightarrow> losses a' \<noteq> [] \<and> actor_loss a' = np_mean (losses a')
    | (a', Some e) \<Rightarrow> losses a' = losses a \<and> actor_loss a' = actor_loss a"
    by (cases rule: actor_step_cases [of a obs' act' adv flag' lib])
      (simp_all add: record_loss_nonempty)
  show ?thesis
    using 1 2 by (simp add: CriticNetwork_init_def ActorNetwork_init_def)
qed

lemma indices_iff: "idx \<in> set (indices s) \<longleftrightarrow> list_all2 (<) idx s"
proof (induction s arbitrary: idx)
  case Nil
  show ?case by simp
next
  case (Cons d ds)
  show ?case
    by (cases idx) (auto simp: Cons.IH image_iff)
qed




lemma length_indices: "length (indices s) = numel s"
  by (induction s) (simp_all add: numel_def length_concat comp_def sum_list_triv)




lemma long_of_int [simp]: "long (of_int z) = z"
  by (simp add: long_def)

lemma shape_relu [simp]: "shape (relu t) = shape t"
  by (simp add: relu_def tmap_def)

lemma shape_tmap [simp]: "shape (tmap f t) = shape t"
  by (simp add: tmap_def)

lemma elem_tmap [simp]: "elem (tmap f t) idx = f (elem t idx)"
  by (simp add: tmap_def)




lemma shape_softmax [simp]: "shape (softmax x) = shape x"
  by (simp add: softmax_def)




lemma zero_net_wf [simp]: "net_wf (NeuralNet_init p state_dim action_dim actor)"
  by (simp add: net_wf_def NeuralNet_init_def)



lemma indices3_iff: "idx \<in> set (indices [S, B, N]) \<longleftrightarrow> (\<exists>s<S. \<exists>b<B. \<exists>k<N. idx = [s, b, k])"
  by (simp only: indices_iff) (auto simp: list_all2_Cons2)


lemma numel2 [simp]: "numel [S, B] = S * B"
  by (simp add: numel_def)











end
